theory Spec2Isabelle
  imports Complex_Main "HOL-Library.List_Lexorder" "HOL-Library.Char_ord"
begin

section \<open>Electricity consumption dashboard (app.py)\<close>

text \<open>
  A shallow embedding of \<^verbatim>\<open>app.py\<close>: the column detection loop, the preparation of the
  data frame (date coercion, energy and cost), and the callback \<^verbatim>\<open>update_dashboard\<close>.

  Conventions of the embedding.
  \<^item> A Python \<^verbatim>\<open>str\<close> is a \<open>string\<close> holding its UTF-8 bytes.
  \<^item> Numeric cells are exact real numbers: the rounding of float64 arithmetic is not modelled,
    and neither are missing (NaN) numeric cells.
  \<^item> The \<^verbatim>\<open>Device\<close> column holds text and has no missing cell.
  \<^item> A parsed date is a value of any linearly ordered type; \<^verbatim>\<open>NaT\<close> is \<open>None\<close>.
  \<^item> A figure is represented by the frame it plots.
\<close>

subsection \<open>Column detection\<close>

text \<open>\<^verbatim>\<open>str.lower\<close>, on the ASCII letters.\<close>

definition lower_char :: "char \<Rightarrow> char" where
  "lower_char c =
     (case map_of (zip ''ABCDEFGHIJKLMNOPQRSTUVWXYZ'' ''abcdefghijklmnopqrstuvwxyz'') c of
        None \<Rightarrow> c
      | Some l \<Rightarrow> l)"

definition lower :: "string \<Rightarrow> string" where
  "lower s = map lower_char s"

text \<open>\<^verbatim>\<open>kw in s\<close> on strings: \<open>kw\<close> occurs in \<open>s\<close> as a contiguous substring.\<close>

fun startswith :: "string \<Rightarrow> string \<Rightarrow> bool" where
  "startswith s [] = True"
| "startswith [] (k # ks) = False"
| "startswith (c # cs) (k # ks) = (c = k \<and> startswith cs ks)"

fun contains :: "string \<Rightarrow> string \<Rightarrow> bool" where
  "contains kw [] = (kw = [])"
| "contains kw (c # cs) = (startswith (c # cs) kw \<or> contains kw cs)"

text \<open>
  The body of the loop \<^verbatim>\<open>for col in df.columns\<close>: one \<^verbatim>\<open>if\<close>/\<^verbatim>\<open>elif\<close> chain,
  each branch storing \<open>col\<close> under one key of the dictionary \<^verbatim>\<open>col_map\<close>.
\<close>

definition detect_step :: "(string \<rightharpoonup> string) \<Rightarrow> string \<Rightarrow> (string \<rightharpoonup> string)" where
  "detect_step col_map col =
     (let cname = lower col in
      if contains ''date'' cname \<or> contains ''day'' cname then col_map(''Date'' \<mapsto> col)
      else if contains ''device'' cname \<or> contains ''appliance'' cname then col_map(''Device'' \<mapsto> col)
      else if contains ''power'' cname \<or> contains ''watt'' cname then col_map(''Power_Watts'' \<mapsto> col)
      else if contains ''hour'' cname \<or> contains ''usage'' cname then col_map(''Hours_Used'' \<mapsto> col)
      else col_map)"

definition detect_columns :: "string list \<Rightarrow> (string \<rightharpoonup> string)" where
  "detect_columns cols = foldl detect_step Map.empty cols"

definition required_cols :: "string list" where
  "required_cols = [''Date'', ''Device'', ''Power_Watts'', ''Hours_Used'']"

definition missing :: "(string \<rightharpoonup> string) \<Rightarrow> string list" where
  "missing col_map = filter (\<lambda>c. col_map c = None) required_cols"

text \<open>
  The exceptions of the start-up code. \<open>ValueError\<close> carries the list that the message
  \<^verbatim>\<open>Could not detect columns in CSV: {missing}\<close> prints.
\<close>

datatype error = FileNotFoundError | ValueError "string list"

definition resolve_columns :: "string list \<Rightarrow> error + (string \<rightharpoonup> string)" where
  "resolve_columns cols =
     (let col_map = detect_columns cols; m = missing col_map
      in if m \<noteq> [] then Inl (ValueError m) else Inr col_map)"

subsection \<open>Preparing the data frame\<close>

text \<open>
  A row of the frame after \<^verbatim>\<open>df.rename\<close>: the cells of the four columns that
  \<^verbatim>\<open>col_map\<close> names, read by role. \<open>'d\<close> is the type of an unparsed date cell.
\<close>

record 'd csv_row =
  csv_Date :: 'd
  csv_Device :: string
  csv_Power_Watts :: real
  csv_Hours_Used :: real

text \<open>A row of \<^verbatim>\<open>df\<close> once prepared; \<open>Date = None\<close> is \<^verbatim>\<open>NaT\<close>.\<close>

record 't row =
  Date :: "'t option"
  Device :: string
  Power_Watts :: real
  Hours_Used :: real
  Energy_kWh :: real
  Cost :: real

definition COST_PER_KWH :: real where
  "COST_PER_KWH = 15 / 100"

text \<open>
  Lines 43 to 46. \<^verbatim>\<open>pd.to_datetime(df["Date"], errors="coerce")\<close> is the parameter
  \<open>to_datetime\<close>: given the whole column (the format is inferred from it) and one cell, it
  yields the parsed date or \<open>None\<close>. The result column has one entry per entry of the
  argument.
\<close>

definition prepare_row :: "('d \<Rightarrow> 't option) \<Rightarrow> 'd csv_row \<Rightarrow> 't row" where
  "prepare_row parse r =
     (let energy = (csv_Power_Watts r * csv_Hours_Used r) / 1000
      in \<lparr>Date = parse (csv_Date r), Device = csv_Device r,
          Power_Watts = csv_Power_Watts r, Hours_Used = csv_Hours_Used r,
          Energy_kWh = energy, Cost = energy * COST_PER_KWH\<rparr>)"

definition prepare :: "('d list \<Rightarrow> 'd \<Rightarrow> 't option) \<Rightarrow> 'd csv_row list \<Rightarrow> 't row list" where
  "prepare to_datetime rows = map (prepare_row (to_datetime (map csv_Date rows))) rows"

text \<open>
  The file as \<^verbatim>\<open>pd.read_csv\<close> returns it: the header and the rows.
  \<open>None\<close> stands for a path at which \<^verbatim>\<open>os.path.exists\<close> is false.
\<close>

record 'd csv_file =
  columns :: "string list"
  data :: "'d csv_row list"

text \<open>The module-level state that the callback reads: the global \<^verbatim>\<open>df\<close>.\<close>

record 't globals =
  df :: "'t row list"

text \<open>Lines 13 to 46: an exception raised here ends the script before the app exists.\<close>

definition startup ::
  "('d list \<Rightarrow> 'd \<Rightarrow> 't option) \<Rightarrow> 'd csv_file option \<Rightarrow> error + 't globals" where
  "startup to_datetime file =
     (case file of
        None \<Rightarrow> Inl FileNotFoundError
      | Some f \<Rightarrow>
          (case resolve_columns (columns f) of
             Inl e \<Rightarrow> Inl e
           | Inr col_map \<Rightarrow> Inr \<lparr>df = prepare to_datetime (data f)\<rparr>))"

subsection \<open>The callback\<close>

text \<open>
  \<^verbatim>\<open>frame.groupby(key, as_index=False)[val].sum()\<close>: one row per distinct key, keys
  ascending, rows whose key is null left out.
\<close>

definition groupby_sum ::
  "('r \<Rightarrow> 'k::linorder option) \<Rightarrow> ('r \<Rightarrow> real) \<Rightarrow> 'r list \<Rightarrow> ('k \<times> real) list" where
  "groupby_sum key val frame =
     map (\<lambda>k. (k, sum_list (map val (filter (\<lambda>r. key r = Some k) frame))))
       (sort (remdups (List.map_filter key frame)))"

text \<open>
  The format specification \<^verbatim>\<open>:.2f\<close>: two decimals, ties to even, the sign of a
  negative value kept.
\<close>

definition round_half_even :: "real \<Rightarrow> int" where
  "round_half_even x =
     (let n = \<lfloor>x\<rfloor>; f = x - of_int n
      in if f < 1 / 2 then n else if 1 / 2 < f then n + 1 else if even n then n else n + 1)"

definition digit :: "nat \<Rightarrow> char" where
  "digit d = ''0123456789'' ! d"

fun digits :: "nat \<Rightarrow> string" where
  "digits n = (if n < 10 then [digit n] else digits (n div 10) @ [digit (n mod 10)])"

declare digits.simps [simp del]

definition format_2f :: "real \<Rightarrow> string" where
  "format_2f x =
     (let n = nat (round_half_even (\<bar>x\<bar> * 100))
      in (if x < 0 then ''-'' else []) @ digits (n div 100) @ ''.'' @
         [digit (n mod 100 div 10), digit (n mod 10)])"

text \<open>The two emoji of the summary line, U+1F50B and U+1F4B0, in UTF-8.\<close>

definition battery :: string where
  "battery = [CHR 0xF0, CHR 0x9F, CHR 0x94, CHR 0x8B]"

definition money_bag :: string where
  "money_bag = [CHR 0xF0, CHR 0x9F, CHR 0x92, CHR 0xB0]"

definition filtered_df :: "'t row list \<Rightarrow> string \<Rightarrow> 't row list" where
  "filtered_df frame selected_device =
     (if selected_device = ''All'' then frame
      else filter (\<lambda>r. Device r = selected_device) frame)"

definition total_energy :: "'t row list \<Rightarrow> string \<Rightarrow> real" where
  "total_energy frame selected_device =
     sum_list (map Energy_kWh (filtered_df frame selected_device))"

definition total_cost :: "'t row list \<Rightarrow> string \<Rightarrow> real" where
  "total_cost frame selected_device =
     sum_list (map Cost (filtered_df frame selected_device))"

definition summary :: "'t row list \<Rightarrow> string \<Rightarrow> string" where
  "summary frame selected_device =
     battery @ '' Total Energy Used: '' @ format_2f (total_energy frame selected_device) @
     '' kWh | '' @ money_bag @ '' Total Cost: $'' @
     format_2f (total_cost frame selected_device)"

definition daily :: "('t::linorder) row list \<Rightarrow> string \<Rightarrow> ('t \<times> real) list" where
  "daily frame selected_device =
     groupby_sum Date Energy_kWh (filtered_df frame selected_device)"

definition device_sum :: "'t row list \<Rightarrow> (string \<times> real) list" where
  "device_sum frame = groupby_sum (\<lambda>r. Some (Device r)) Energy_kWh frame"

definition daily_cost :: "('t::linorder) row list \<Rightarrow> string \<Rightarrow> ('t \<times> real) list" where
  "daily_cost frame selected_device =
     groupby_sum Date Cost (filtered_df frame selected_device)"

text \<open>
  \<^verbatim>\<open>update_dashboard\<close> reads the global \<^verbatim>\<open>df\<close> and assigns only to locals; it returns
  the three figures and the summary, and the globals as it found them.
\<close>

type_synonym 't outputs =
  "('t \<times> real) list \<times> (string \<times> real) list \<times> ('t \<times> real) list \<times> string"

definition update_dashboard ::
  "string \<Rightarrow> ('t::linorder) globals \<Rightarrow> 't outputs \<times> 't globals" where
  "update_dashboard selected_device g =
     ((daily (df g) selected_device, device_sum (df g),
       daily_cost (df g) selected_device, summary (df g) selected_device), g)"

text \<open>A session: the callback invoked once for each selection, in order.\<close>

fun interactions ::
  "string list \<Rightarrow> ('t::linorder) globals \<Rightarrow> 't outputs list \<times> 't globals" where
  "interactions [] g = ([], g)"
| "interactions (sel # sels) g =
     (let (out, g') = update_dashboard sel g; (outs, g'') = interactions sels g'
      in (out # outs, g''))"

subsection \<open>The column resolver in the words of the specification\<close>

text \<open>
  The keyword sets of the four roles, in the order in which the roles are tried, and the
  first role of that order whose keyword a column name contains once lowercased. These
  are compared with \<open>detect_step\<close> and \<open>detect_columns\<close> below.
\<close>

definition role_keywords :: "(string \<times> string list) list" where
  "role_keywords =
     [(''Date'', [''date'', ''day'']),
      (''Device'', [''device'', ''appliance'']),
      (''Power_Watts'', [''power'', ''watt'']),
      (''Hours_Used'', [''hour'', ''usage''])]"

definition has_keyword :: "string list \<Rightarrow> string \<Rightarrow> bool" where
  "has_keyword kws col = list_ex (\<lambda>kw. contains kw (lower col)) kws"

definition keyword_match :: "string \<Rightarrow> string \<Rightarrow> bool" where
  "keyword_match role col =
     (case map_of role_keywords role of None \<Rightarrow> False | Some kws \<Rightarrow> has_keyword kws col)"

definition first_role :: "string \<Rightarrow> string option" where
  "first_role col = map_option fst (find (\<lambda>(role, kws). has_keyword kws col) role_keywords)"

subsection \<open>Sample data\<close>

text \<open>
  The sample of the specification: device A on two days, device B on one. Dates parse to
  day numbers; any other cell is unparsable.
\<close>

definition sample_to_datetime :: "string list \<Rightarrow> string \<Rightarrow> nat option" where
  "sample_to_datetime column cell =
     map_of [(''2025-01-01'', 20250101), (''2025-01-02'', 20250102)] cell"

definition sample_rows :: "string csv_row list" where
  "sample_rows =
     [\<lparr>csv_Date = ''2025-01-01'', csv_Device = ''A'', csv_Power_Watts = 1000, csv_Hours_Used = 2\<rparr>,
      \<lparr>csv_Date = ''2025-01-02'', csv_Device = ''A'', csv_Power_Watts = 1000, csv_Hours_Used = 3\<rparr>,
      \<lparr>csv_Date = ''2025-01-01'', csv_Device = ''B'', csv_Power_Watts = 500, csv_Hours_Used = 4\<rparr>]"


definition sample_df :: "nat row list" where
  "sample_df = prepare sample_to_datetime sample_rows"



section \<open>Properties\<close>

subsection \<open>Column detection\<close>

lemma detect_step_first_role:
  "detect_step m col = (case first_role col of None \<Rightarrow> m | Some r \<Rightarrow> m(r \<mapsto> col))"
  by (simp add: detect_step_def first_role_def role_keywords_def has_keyword_def Let_def)

lemma detect_step_apply:
  "detect_step m col r = (if first_role col = Some r then Some col else m r)"
  by (cases "first_role col") (auto simp: detect_step_first_role)

lemma foldl_detect_step:
  "foldl detect_step m cols r =
     (case filter (\<lambda>c. first_role c = Some r) cols of
        [] \<Rightarrow> m r
      | x # xs \<Rightarrow> Some (last (x # xs)))"
proof (induction cols arbitrary: m)
  case Nil
  show ?case by simp
next
  case (Cons c cs)
  have "foldl detect_step m (c # cs) r = foldl detect_step (detect_step m c) cs r"
    by simp
  also have "\<dots> = (case filter (\<lambda>c. first_role c = Some r) cs of
        [] \<Rightarrow> detect_step m c r
      | x # xs \<Rightarrow> Some (last (x # xs)))"
    by (rule Cons.IH)
  also have "\<dots> = (case filter (\<lambda>c. first_role c = Some r) (c # cs) of
        [] \<Rightarrow> m r
      | x # xs \<Rightarrow> Some (last (x # xs)))"
    by (simp add: detect_step_apply split: list.splits)
  finally show ?case .
qed

lemma detect_columns_last:
  "detect_columns cols r =
     (let xs = filter (\<lambda>c. first_role c = Some r) cols
      in if xs = [] then None else Some (last xs))"
  by (simp add: detect_columns_def foldl_detect_step Let_def split: list.splits)

lemma first_role_chain:
  "first_role col =
     (if has_keyword [''date'', ''day''] col then Some ''Date''
      else if has_keyword [''device'', ''appliance''] col then Some ''Device''
      else if has_keyword [''power'', ''watt''] col then Some ''Power_Watts''
      else if has_keyword [''hour'', ''usage''] col then Some ''Hours_Used''
      else None)"
  by (simp add: first_role_def role_keywords_def)

lemma keyword_match_simps:
  "keyword_match ''Date'' col = has_keyword [''date'', ''day''] col"
  "keyword_match ''Device'' col = has_keyword [''device'', ''appliance''] col"
  "keyword_match ''Power_Watts'' col = has_keyword [''power'', ''watt''] col"
  "keyword_match ''Hours_Used'' col = has_keyword [''hour'', ''usage''] col"
  by (simp_all add: keyword_match_def role_keywords_def)

lemma first_role_required: "first_role c = Some r \<Longrightarrow> r \<in> set required_cols"
  by (auto simp: first_role_chain required_cols_def split: if_splits)

lemma first_role_keyword_match: "first_role c = Some r \<Longrightarrow> keyword_match r c"
  by (auto simp: first_role_chain keyword_match_simps split: if_splits)

lemma first_role_iff:
  "first_role col = Some role \<longleftrightarrow>
     role \<in> set required_cols \<and> keyword_match role col \<and>
     (\<forall>r\<in>set (takeWhile (\<lambda>r. r \<noteq> role) required_cols). \<not> keyword_match r col)"
proof (cases "role \<in> set required_cols")
  case False
  then show ?thesis using first_role_required [of col role] by blast
next
  case True
  then consider "role = ''Date''" | "role = ''Device''" | "role = ''Power_Watts''"
    | "role = ''Hours_Used''"
    by (auto simp: required_cols_def)
  then show ?thesis
  proof cases
    case 1
    then show ?thesis
      by (simp add: first_role_chain keyword_match_simps required_cols_def)
  next
    case 2
    then show ?thesis
      by (simp add: first_role_chain keyword_match_simps required_cols_def)
  next
    case 3
    then show ?thesis
      by (simp add: first_role_chain keyword_match_simps required_cols_def)
  next
    case 4
    then show ?thesis
      by (simp add: first_role_chain keyword_match_simps required_cols_def)
  qed
qed

lemma missing_detect_columns:
  "missing (detect_columns cols) =
     filter (\<lambda>r. \<forall>c\<in>set cols. first_role c \<noteq> Some r) required_cols"
  unfolding missing_def
  by (rule filter_cong) (auto simp: detect_columns_last Let_def filter_empty_conv)

lemma dom_detect_columns: "dom (detect_columns cols) \<subseteq> set required_cols"
  by (auto simp: detect_columns_last Let_def filter_empty_conv first_role_required
           split: if_splits)

text \<open>
  Claim C7. The resolver assigns a column name to at most one role, the first role in the
  order Date, Device, Power, Hours whose keyword the lowercased name contains; a column
  that matched is not tried for a later role. When several columns have the same role,
  the one that comes last in the header is the one the mapping keeps.
\<close>

theorem column_resolver_first_role_last_column:
  "detect_step col_map col =
     (case first_role col of None \<Rightarrow> col_map | Some role \<Rightarrow> col_map(role \<mapsto> col))
   \<and> (first_role col = Some role \<longleftrightarrow>
        role \<in> set required_cols \<and> keyword_match role col \<and>
        (\<forall>r\<in>set (takeWhile (\<lambda>r. r \<noteq> role) required_cols). \<not> keyword_match r col))
   \<and> detect_columns cols role =
       (let xs = filter (\<lambda>c. first_role c = Some role) cols
        in if xs = [] then None else Some (last xs))"
  using detect_step_first_role [of col_map col] first_role_iff [of col role]
    detect_columns_last [of cols role]
  by blast

theorem column_resolver_first_role_last_column_witness:
  "first_role ''Usage Day'' = Some ''Date''
   \<and> keyword_match ''Hours_Used'' ''Usage Day''
   \<and> detect_step Map.empty ''Usage Day'' = [''Date'' \<mapsto> ''Usage Day'']
   \<and> detect_columns [''Usage Day'', ''Date'', ''Device'', ''Day'', ''Power'', ''Hours'']
         ''Date'' = Some ''Day''"
proof -
  have role: "first_role ''Usage Day'' = Some ''Date''"
    by (simp add: first_role_chain has_keyword_def lower_def lower_char_def)
  have hours: "keyword_match ''Hours_Used'' ''Usage Day''"
    by (simp add: keyword_match_simps has_keyword_def lower_def lower_char_def)
  have cols: "filter (\<lambda>c. first_role c = Some ''Date'')
      [''Usage Day'', ''Date'', ''Device'', ''Day'', ''Power'', ''Hours''] =
      [''Usage Day'', ''Date'', ''Day'']"
    by (simp add: first_role_chain has_keyword_def lower_def lower_char_def)
  show ?thesis
    using column_resolver_first_role_last_column
      [of Map.empty "''Usage Day''" "''Date''"
          "[''Usage Day'', ''Date'', ''Device'', ''Day'', ''Power'', ''Hours'']"]
      role hours cols
    by simp
qed

text \<open>
  Claim C3 as stated fails. In the header Date, Device, Power, Hours per day every role
  has a column whose name contains one of its keywords, yet the column
  \<^verbatim>\<open>Hours per day\<close> contains \<^verbatim>\<open>day\<close> and is taken for Date, so that Hours_Used is
  reported missing.
\<close>

theorem column_resolver_keyword_iff_counterexample:
  "keyword_match ''Date'' ''Date'' \<and> keyword_match ''Device'' ''Device''
   \<and> keyword_match ''Power_Watts'' ''Power''
   \<and> keyword_match ''Hours_Used'' ''Hours per day''
   \<and> resolve_columns [''Date'', ''Device'', ''Power'', ''Hours per day''] =
       Inl (ValueError [''Hours_Used''])"
proof -
  have "keyword_match ''Date'' ''Date''" "keyword_match ''Device'' ''Device''"
    "keyword_match ''Power_Watts'' ''Power''" "keyword_match ''Hours_Used'' ''Hours per day''"
    by (simp_all add: keyword_match_simps has_keyword_def lower_def lower_char_def)
  moreover have "resolve_columns [''Date'', ''Device'', ''Power'', ''Hours per day''] =
       Inl (ValueError [''Hours_Used''])"
    by (simp add: resolve_columns_def detect_columns_def detect_step_def missing_def
          required_cols_def lower_def lower_char_def)
  ultimately show ?thesis by simp
qed

lemma resolve_columns_eq:
  "resolve_columns cols =
     (let unmatched = filter (\<lambda>role. \<forall>c\<in>set cols. first_role c \<noteq> Some role) required_cols
      in if unmatched = [] then Inr (detect_columns cols) else Inl (ValueError unmatched))"
  by (simp add: resolve_columns_def missing_detect_columns Let_def)

lemma unmatched_empty_iff:
  "filter (\<lambda>role. \<forall>c\<in>set cols. first_role c \<noteq> Some role) required_cols = [] \<longleftrightarrow>
     (\<forall>role\<in>set required_cols. \<exists>c\<in>set cols. first_role c = Some role)"
  by (auto simp: filter_empty_conv)

lemma dom_detect_columns_complete:
  assumes "\<forall>role\<in>set required_cols. \<exists>c\<in>set cols. first_role c = Some role"
  shows "dom (detect_columns cols) = set required_cols"
proof
  show "dom (detect_columns cols) \<subseteq> set required_cols" by (rule dom_detect_columns)
  show "set required_cols \<subseteq> dom (detect_columns cols)"
  proof
    fix role assume "role \<in> set required_cols"
    with assms obtain c where "c \<in> set cols" "first_role c = Some role" by blast
    then have "filter (\<lambda>c. first_role c = Some role) cols \<noteq> []"
      by (auto simp: filter_empty_conv)
    then show "role \<in> dom (detect_columns cols)"
      by (simp add: detect_columns_last Let_def dom_def)
  qed
qed

text \<open>
  Claim C3, amended. The resolver produces a complete four-role mapping if and only if
  each of the four roles is the first role (in the order Date, Device, Power_Watts,
  Hours_Used) of some column; otherwise \<^verbatim>\<open>ValueError\<close> is raised with exactly the roles
  that are the first role of no column, in that order, and start-up ends with that
  error. A column whose first role is \<open>role\<close> contains one of the keywords of \<open>role\<close>.
\<close>

theorem column_resolver_complete_iff_first_roles:
  "((\<forall>role\<in>set required_cols. \<exists>c\<in>set cols. first_role c = Some role) \<longrightarrow>
      resolve_columns cols = Inr (detect_columns cols) \<and>
      dom (detect_columns cols) = set required_cols)
   \<and> (\<not> (\<forall>role\<in>set required_cols. \<exists>c\<in>set cols. first_role c = Some role) \<longrightarrow>
      resolve_columns cols =
        Inl (ValueError
          (filter (\<lambda>role. \<forall>c\<in>set cols. first_role c \<noteq> Some role) required_cols)) \<and>
      startup to_datetime (Some \<lparr>columns = cols, data = rows\<rparr>) =
        Inl (ValueError
          (filter (\<lambda>role. \<forall>c\<in>set cols. first_role c \<noteq> Some role) required_cols)))
   \<and> (first_role c = Some role \<longrightarrow> keyword_match role c)"
proof (intro conjI impI)
  assume all: "\<forall>role\<in>set required_cols. \<exists>c\<in>set cols. first_role c = Some role"
  then show "resolve_columns cols = Inr (detect_columns cols)"
    using unmatched_empty_iff [of cols] by (simp add: resolve_columns_eq Let_def)
  from all show "dom (detect_columns cols) = set required_cols"
    by (rule dom_detect_columns_complete)
next
  assume "\<not> (\<forall>role\<in>set required_cols. \<exists>c\<in>set cols. first_role c = Some role)"
  then have ne: "filter (\<lambda>role. \<forall>c\<in>set cols. first_role c \<noteq> Some role) required_cols \<noteq> []"
    using unmatched_empty_iff [of cols] by simp
  then show r: "resolve_columns cols =
        Inl (ValueError
          (filter (\<lambda>role. \<forall>c\<in>set cols. first_role c \<noteq> Some role) required_cols))"
    by (simp add: resolve_columns_eq Let_def)
  then show "startup to_datetime (Some \<lparr>columns = cols, data = rows\<rparr>) =
        Inl (ValueError
          (filter (\<lambda>role. \<forall>c\<in>set cols. first_role c \<noteq> Some role) required_cols))"
    by (simp add: startup_def)
next
  assume "first_role c = Some role"
  then show "keyword_match role c" by (rule first_role_keyword_match)
qed

theorem column_resolver_complete_iff_first_roles_witness:
  "resolve_columns [''Date'', ''Device'', ''Power'', ''Hours''] =
     Inr (detect_columns [''Date'', ''Device'', ''Power'', ''Hours''])
   \<and> dom (detect_columns [''Date'', ''Device'', ''Power'', ''Hours'']) = set required_cols
   \<and> resolve_columns [''Date'', ''Device'', ''Power'', ''Hours per day''] =
       Inl (ValueError [''Hours_Used''])
   \<and> startup sample_to_datetime
         (Some \<lparr>columns = [''Date'', ''Device'', ''Power'', ''Hours per day''],
                data = sample_rows\<rparr>) = Inl (ValueError [''Hours_Used''])
   \<and> keyword_match ''Date'' ''Hours per day''"
proof -
  have roles:
    "first_role ''Date'' = Some ''Date''" "first_role ''Device'' = Some ''Device''"
    "first_role ''Power'' = Some ''Power_Watts''" "first_role ''Hours'' = Some ''Hours_Used''"
    "first_role ''Hours per day'' = Some ''Date''"
    by (simp_all add: first_role_chain has_keyword_def lower_def lower_char_def)
  have good: "\<forall>role\<in>set required_cols.
      \<exists>c\<in>set [''Date'', ''Device'', ''Power'', ''Hours'']. first_role c = Some role"
    by (simp add: required_cols_def roles)
  have bad: "\<not> (\<forall>role\<in>set required_cols.
      \<exists>c\<in>set [''Date'', ''Device'', ''Power'', ''Hours per day'']. first_role c = Some role)"
    by (simp add: required_cols_def roles)
  have unmatched: "filter (\<lambda>role. \<forall>c\<in>set [''Date'', ''Device'', ''Power'', ''Hours per day''].
      first_role c \<noteq> Some role) required_cols = [''Hours_Used'']"
    by (simp add: required_cols_def roles)
  show ?thesis
    using column_resolver_complete_iff_first_roles
        [of "[''Date'', ''Device'', ''Power'', ''Hours'']" sample_to_datetime sample_rows
            "''Hours per day''" "''Date''"]
      column_resolver_complete_iff_first_roles
        [of "[''Date'', ''Device'', ''Power'', ''Hours per day'']" sample_to_datetime
            sample_rows "''Hours per day''" "''Date''"]
      good bad unmatched roles
    by simp
qed


lemma sample_df_rows:
  "sample_df =
     [\<lparr>Date = Some 20250101, Device = ''A'', Power_Watts = 1000, Hours_Used = 2,
        Energy_kWh = 2, Cost = 3 / 10\<rparr>,
      \<lparr>Date = Some 20250102, Device = ''A'', Power_Watts = 1000, Hours_Used = 3,
        Energy_kWh = 3, Cost = 9 / 20\<rparr>,
      \<lparr>Date = Some 20250101, Device = ''B'', Power_Watts = 500, Hours_Used = 4,
        Energy_kWh = 2, Cost = 3 / 10\<rparr>]"
  by (simp add: sample_df_def prepare_def prepare_row_def sample_rows_def
        sample_to_datetime_def COST_PER_KWH_def)



subsection \<open>Preparation\<close>






subsection \<open>The callback\<close>

lemma interactions_eq:
  "interactions sels g = (map (\<lambda>sel. fst (update_dashboard sel g)) sels, g)"
  by (induction sels) (simp_all add: update_dashboard_def)

text \<open>
  Claim C9. For every selection, \<^verbatim>\<open>update_dashboard\<close> leaves the globals, and so every
  row of \<^verbatim>\<open>df\<close>, as they were; after any sequence of selections the globals are
  unchanged and each output is the one computed from the data frame as loaded.
\<close>

theorem update_dashboard_leaves_df_unchanged:
  "snd (update_dashboard selected_device g) = g \<and>
   snd (interactions sels g) = g \<and>
   fst (interactions sels g) = map (\<lambda>sel. fst (update_dashboard sel g)) sels"
  by (simp add: interactions_eq) (simp add: update_dashboard_def)

lemma map_filter_Some: "List.map_filter (\<lambda>r. Some (f r)) xs = map f xs"
  by (induction xs) (simp_all add: List.map_filter_simps)

lemma device_sum_eq:
  "device_sum frame =
     map (\<lambda>d. (d, sum_list (map Energy_kWh (filter (\<lambda>r. Device r = d) frame))))
       (sort (remdups (map Device frame)))"
  by (simp add: device_sum_def groupby_sum_def map_filter_Some)

text \<open>
  Claim C5. For every selection, the per-device totals returned by \<^verbatim>\<open>update_dashboard\<close>
  are those of the whole data frame: one entry per device, devices ascending, each
  with the sum of \<open>Energy_kWh\<close> over all rows of that device. Two selections give the
  same totals.
\<close>

theorem device_totals_ignore_selection:
  "fst (snd (fst (update_dashboard selected_device g))) =
     map (\<lambda>d. (d, sum_list (map Energy_kWh (filter (\<lambda>r. Device r = d) (df g)))))
       (sort (remdups (map Device (df g)))) \<and>
   fst (snd (fst (update_dashboard s1 g))) = fst (snd (fst (update_dashboard s2 g)))"
  by (simp add: update_dashboard_def device_sum_eq)

lemma groupby_sum_Nil: "groupby_sum key val [] = []"
  by (simp add: groupby_sum_def List.map_filter_simps)

lemma format_2f_zero: "format_2f 0 = ''0.00''"
  by (simp add: format_2f_def round_half_even_def digits.simps digit_def)

text \<open>
  Claim C10. For a selection that is neither \<^verbatim>\<open>All\<close> nor the device of any row, the
  filtered frame is empty, both daily series are empty, and the summary reports
  0.00 kWh and $0.00; the per-device totals are those of the whole frame.
\<close>

theorem unknown_device_gives_empty_outputs:
  "selected_device \<noteq> ''All'' \<Longrightarrow> selected_device \<notin> Device ` set (df g) \<Longrightarrow>
     filtered_df (df g) selected_device = [] \<and>
     update_dashboard selected_device g =
       (([], device_sum (df g), [],
         battery @ '' Total Energy Used: 0.00 kWh | '' @ money_bag @ '' Total Cost: $0.00''), g)"
proof -
  assume "selected_device \<noteq> ''All''" "selected_device \<notin> Device ` set (df g)"
  then have empty: "filtered_df (df g) selected_device = []"
    by (auto simp: filtered_df_def filter_empty_conv)
  then show ?thesis
    by (simp add: update_dashboard_def daily_def daily_cost_def summary_def total_energy_def
          total_cost_def groupby_sum_Nil format_2f_zero)
qed

theorem unknown_device_gives_empty_outputs_witness:
  "fst (update_dashboard ''C'' \<lparr>df = sample_df\<rparr>) =
     ([], [(''A'', 5), (''B'', 2)], [],
      battery @ '' Total Energy Used: 0.00 kWh | '' @ money_bag @ '' Total Cost: $0.00'')"
proof -
  have "''C'' \<notin> Device ` set (df \<lparr>df = sample_df\<rparr>)"
    by (simp add: sample_df_rows)
  moreover have "device_sum sample_df = [(''A'', 5), (''B'', 2)]"
    by (simp add: device_sum_eq sample_df_rows)
  ultimately show ?thesis
    using unknown_device_gives_empty_outputs [of "''C''" "\<lparr>df = sample_df\<rparr>"]
    by simp
qed

















end
